theory Spec2Isabelle
  imports Main
begin

section \<open>Python values used by change\_ip.py\<close>

text \<open>
  The script reads and writes JSON documents (\<^verbatim>\<open>json.load\<close>, \<^verbatim>\<open>json.loads\<close>,
  \<^verbatim>\<open>json.dumps\<close>). A decoded document is a value of \<open>json\<close>; a Python \<^verbatim>\<open>dict\<close>
  is an association list whose lookup is \<open>map_of\<close>. Numbers are integers; JSON
  numbers with a fraction are not part of the model. Strings are lists of 8-bit
  characters, so a Python \<^verbatim>\<open>str\<close> is modelled up to code point 255.
\<close>

datatype json =
    JNull
  | JBool bool
  | JNum int
  | JStr string
  | JList "json list"
  | JObj "(string \<times> json) list"

text \<open>Python truthiness (\<^verbatim>\<open>if x\<close>, \<^verbatim>\<open>not x\<close>, \<^verbatim>\<open>x or y\<close>, \<^verbatim>\<open>bool(x)\<close>).\<close>

fun truthy :: "json \<Rightarrow> bool" where
  "truthy JNull = False"
| "truthy (JBool b) = b"
| "truthy (JNum n) = (n \<noteq> 0)"
| "truthy (JStr s) = (s \<noteq> [])"
| "truthy (JList xs) = (xs \<noteq> [])"
| "truthy (JObj kvs) = (kvs \<noteq> [])"

text \<open>\<^verbatim>\<open>d.get(k)\<close>: the value stored under \<open>k\<close>, \<^verbatim>\<open>None\<close> when the key is absent.\<close>

fun dict_get :: "(string \<times> json) list \<Rightarrow> string \<Rightarrow> json" where
  "dict_get kvs k = (case map_of kvs k of None \<Rightarrow> JNull | Some v \<Rightarrow> v)"

text \<open>
  The exceptions the script raises or lets through. \<open>NetworkError\<close> stands for whatever
  \<^verbatim>\<open>urlopen\<close>, \<^verbatim>\<open>read\<close>, \<^verbatim>\<open>decode\<close> or \<^verbatim>\<open>json.loads\<close> raise (all subclasses of
  \<^verbatim>\<open>Exception\<close>), tagged with a description. \<open>RecordNotFound\<close> is the
  \<^verbatim>\<open>RuntimeError\<close> of \<^verbatim>\<open>get_cloudflare_record\<close>; \<open>NoPublicIP e\<close> is the
  \<^verbatim>\<open>RuntimeError\<close> of \<^verbatim>\<open>get_current_ip\<close>, whose message is formatted from
  \<^verbatim>\<open>last_error\<close> (\<open>None\<close> when that variable still holds \<^verbatim>\<open>None\<close>).
\<close>

datatype exn =
    NetworkError string
  | FileNotFoundError
  | TypeError
  | ValueError
  | OverflowError
  | KeyError string
  | IndexError
  | AttributeError
  | RecordNotFound
  | NoPublicIP "exn option"

section \<open>Strings: \<^verbatim>\<open>str.strip\<close>, \<^verbatim>\<open>str.split\<close>, \<^verbatim>\<open>int\<close>\<close>

definition newline :: char where
  "newline = CHR 0x0A"

fun is_digit :: "char \<Rightarrow> bool" where
  "is_digit c = (48 \<le> (of_char c :: nat) \<and> (of_char c :: nat) \<le> 57)"

fun digit_val :: "char \<Rightarrow> nat" where
  "digit_val c = of_char c - 48"

text \<open>
  The characters below 256 for which \<^verbatim>\<open>str.isspace\<close> holds: tab, line feed, vertical
  tab, form feed, carriage return, the separators 0x1C to 0x1F, space, 0x85 and 0xA0.
\<close>

fun is_space :: "char \<Rightarrow> bool" where
  "is_space c =
     (let n = (of_char c :: nat)
      in (9 \<le> n \<and> n \<le> 13) \<or> (28 \<le> n \<and> n \<le> 32) \<or> n = 133 \<or> n = 160)"

definition strip :: "string \<Rightarrow> string" where
  "strip s = rev (dropWhile is_space (rev (dropWhile is_space s)))"

text \<open>
  \<^verbatim>\<open>int\<close> skips less than \<^verbatim>\<open>str.strip\<close> removes: of the characters below 256 it
  skips tab, line feed, vertical tab, form feed, carriage return, space, 0x85 and 0xA0
  around the number, and not the separators 0x1C to 0x1F.
\<close>

fun is_int_space :: "char \<Rightarrow> bool" where
  "is_int_space c =
     (let n = (of_char c :: nat)
      in (9 \<le> n \<and> n \<le> 13) \<or> n = 32 \<or> n = 133 \<or> n = 160)"

definition int_strip :: "string \<Rightarrow> string" where
  "int_strip s = rev (dropWhile is_int_space (rev (dropWhile is_int_space s)))"

text \<open>\<^verbatim>\<open>s.split(d)\<close> for a one-character separator: never empty, one more part than
  separators.\<close>

fun split_on :: "char \<Rightarrow> string \<Rightarrow> string list" where
  "split_on d [] = [[]]"
| "split_on d (c # r) =
     (if c = d then [] # split_on d r
      else (case split_on d r of [] \<Rightarrow> [[c]] | h # t \<Rightarrow> (c # h) # t))"

text \<open>
  \<^verbatim>\<open>int(s)\<close> on a string: surrounding whitespace is skipped, one sign is allowed, and
  the rest must be decimal digits, with single underscores allowed between digits.
  \<open>None\<close> is \<^verbatim>\<open>ValueError\<close>.
\<close>

fun int_literal :: "string \<Rightarrow> bool" where
  "int_literal [] = False"
| "int_literal [c] = is_digit c"
| "int_literal (c # d # r) =
     (is_digit c \<and> (if d = CHR ''_'' then int_literal r else int_literal (d # r)))"

definition digits_value :: "string \<Rightarrow> nat" where
  "digits_value ds = foldl (\<lambda>acc c. 10 * acc + digit_val c) 0 ds"

definition py_int :: "string \<Rightarrow> int option" where
  "py_int s =
     (let t = int_strip s;
          neg = (t \<noteq> [] \<and> hd t = CHR ''-'');
          body = (if t \<noteq> [] \<and> (hd t = CHR ''-'' \<or> hd t = CHR ''+'') then tl t else t)
      in if int_literal body
         then Some ((if neg then - 1 else 1) *
                    int (digits_value (filter (\<lambda>c. c \<noteq> CHR ''_'') body)))
         else None)"

section \<open>The regular expression of the validator\<close>

text \<open>
  \<^verbatim>\<open>re.match(r"^(\d{1,3}\.){3}\d{1,3}$", ip)\<close>. The pattern language is the part of
  Python's that the script uses: \<^verbatim>\<open>\d\<close>, a literal character, concatenation, bounded
  repetition \<^verbatim>\<open>{lo,hi}\<close> and \<^verbatim>\<open>$\<close>. \<open>re_run p s\<close> lists, in the order a backtracking
  matcher tries them, the rests of \<open>s\<close> after each way \<open>p\<close> can match a prefix of \<open>s\<close>.
  Without the MULTILINE flag \<^verbatim>\<open>$\<close> holds at the end of the string and just before a
  newline that is the last character of the string. \<^verbatim>\<open>re.match\<close> tries position 0
  only, where \<^verbatim>\<open>^\<close> always holds, so the pattern below has no node for it.
\<close>

datatype regex =
    Digit
  | Chr char
  | Seq regex regex
  | Rep nat nat regex
  | Dollar

fun re_iter :: "(string \<Rightarrow> string list) \<Rightarrow> nat \<Rightarrow> string \<Rightarrow> string list" where
  "re_iter m 0 s = [s]"
| "re_iter m (Suc n) s = concat (map (re_iter m n) (m s))"

fun re_run :: "regex \<Rightarrow> string \<Rightarrow> string list" where
  "re_run Digit s = (case s of [] \<Rightarrow> [] | c # r \<Rightarrow> if is_digit c then [r] else [])"
| "re_run (Chr a) s = (case s of [] \<Rightarrow> [] | c # r \<Rightarrow> if c = a then [r] else [])"
| "re_run (Seq p q) s = concat (map (\<lambda>r. re_run q r) (re_run p s))"
| "re_run (Rep lo hi p) s =
     concat (map (\<lambda>n. re_iter (\<lambda>r. re_run p r) n s) (rev [lo..<Suc hi]))"
| "re_run Dollar s = (if s = [] \<or> s = [newline] then [s] else [])"

definition re_match :: "regex \<Rightarrow> string \<Rightarrow> bool" where
  "re_match p s = (re_run p s \<noteq> [])"

definition ipv4_pattern :: regex where
  "ipv4_pattern =
     Seq (Rep 3 3 (Seq (Rep 1 3 Digit) (Chr CHR ''.''))) (Seq (Rep 1 3 Digit) Dollar)"

section \<open>\<^verbatim>\<open>is_valid_public_ipv4\<close>\<close>

text \<open>
  The result is \<open>Inr b\<close> when the function returns \<open>b\<close>. The unpacking
  \<^verbatim>\<open>o1, o2, _, _ = octets_int\<close> raises \<^verbatim>\<open>ValueError\<close> unless there are four octets.
\<close>

definition is_valid_public_ipv4 :: "string \<Rightarrow> exn + bool" where
  "is_valid_public_ipv4 ip =
     (if \<not> re_match ipv4_pattern ip then Inr False
      else
        (case those (map py_int (split_on CHR ''.'' ip)) of
           None \<Rightarrow> Inr False
         | Some octets_int \<Rightarrow>
             if list_ex (\<lambda>oc. oc < 0 \<or> oc > 255) octets_int then Inr False
             else
               (case octets_int of
                  [o1, o2, _, _] \<Rightarrow>
                    if o1 = 10 \<or> o1 = 127 then Inr False
                    else if o1 = 172 \<and> 16 \<le> o2 \<and> o2 \<le> 31 then Inr False
                    else if o1 = 192 \<and> o2 = 168 then Inr False
                    else Inr True
                | _ \<Rightarrow> Inl ValueError)))"

section \<open>The network and the clock\<close>

text \<open>
  Everything the script does to the outside world is an event; a run returns the events
  in the order they happened. Logging is not modelled. A Cloudflare request carries the
  bearer token, the HTTP method, the resource and the JSON body; the resource is
  \<^verbatim>\<open>zones/{zone_id}/dns_records?name={record_name}&type=A\<close> or
  \<^verbatim>\<open>zones/{zone_id}/dns_records/{record_id}\<close>.
\<close>

datatype cf_url =
    RecordsByName string string
  | RecordById string json

datatype event =
    IpQuery string
  | CfRequest string string cf_url "json option"
  | TgSend string json
  | Sleep int

text \<open>
  What the outside world answers during one tick. A discovery service answers with
  its decoded body or the request raises; each service is asked at most once per tick,
  so the answer is a function of the URL. Cloudflare is asked at most once per attempt
  for the record and at most once per attempt to replace it, so its answers are
  functions of the attempt number: the decoded JSON body, or the exception of
  \<^verbatim>\<open>urlopen\<close>, \<^verbatim>\<open>read\<close> or \<^verbatim>\<open>json.loads\<close>. Telegram is asked once per
  configured chat, so its answers are indexed by the position in the chat list: the
  request raises, or it returns a status code and reading the body succeeds or raises.
\<close>

datatype ip_answer = IpRaises exn | IpBody string

datatype tg_answer = TgRaises exn | TgStatus nat "exn option"

record tick_env =
  ip_service :: "string \<Rightarrow> ip_answer"
  cf_fetch :: "int \<Rightarrow> exn + json"
  cf_update :: "int \<Rightarrow> exn + json"
  tg_service :: "nat \<Rightarrow> tg_answer"

text \<open>
  \<^verbatim>\<open>time.sleep(d)\<close> for a whole number of seconds. It raises \<^verbatim>\<open>ValueError\<close> for a
  negative \<open>d\<close> and \<^verbatim>\<open>OverflowError\<close> when \<open>d\<close> seconds do not fit the signed 64-bit
  count of nanoseconds that CPython converts the argument to, that is from
  9223372037 seconds on.
\<close>

definition max_sleep :: int where
  "max_sleep = 9223372036"

definition time_sleep :: "int \<Rightarrow> (exn + unit) \<times> event list" where
  "time_sleep d =
     (if d < 0 then (Inl ValueError, [])
      else if d > max_sleep then (Inl OverflowError, [])
      else (Inr (), [Sleep d]))"

section \<open>Configuration\<close>

text \<open>
  The entries of \<^verbatim>\<open>cfg\<close> that the loop reads, at the types the script uses them
  at. \<^verbatim>\<open>cfg.get("telegram_bot_token")\<close> is \<open>None\<close> when the key is absent.
\<close>

record config =
  cloudflare_api_token :: string
  zone_id :: string
  record_name :: string
  check_interval :: int
  max_retries :: int
  retry_delay :: int
  telegram_bot_token :: "string option"
  telegram_chat_ids :: "int list"

text \<open>
  \<^verbatim>\<open>load_config\<close> works on the decoded file and returns a \<^verbatim>\<open>dict\<close>.
  \<^verbatim>\<open>{**defaults, **raw}\<close> is \<open>kvs @ defaults\<close> under \<open>map_of\<close>, where the first
  binding of a key counts; the assignment \<^verbatim>\<open>cfg["telegram_chat_ids"] = ...\<close> puts
  a new first binding.
\<close>

datatype config_file = Missing | Undecodable | Content json

definition defaults :: "(string \<times> json) list" where
  "defaults =
     [(''check_interval'', JNum 30), (''max_retries'', JNum 5),
      (''retry_delay'', JNum 5), (''log_level'', JStr ''INFO'')]"

definition required_keys :: "string list" where
  "required_keys = [''cloudflare_api_token'', ''zone_id'', ''record_name'']"

text \<open>\<^verbatim>\<open>for x in v\<close>: a list yields its elements, a string its characters, a
  \<^verbatim>\<open>dict\<close> its keys (each key once, in the order of first appearance); anything
  else is not iterable.\<close>

fun iter_json :: "json \<Rightarrow> exn + json list" where
  "iter_json (JList xs) = Inr xs"
| "iter_json (JStr s) = Inr (map (\<lambda>c. JStr [c]) s)"
| "iter_json (JObj kvs) = Inr (map JStr (rev (remdups (rev (map fst kvs)))))"
| "iter_json JNull = Inl TypeError"
| "iter_json (JBool b) = Inl TypeError"
| "iter_json (JNum n) = Inl TypeError"

text \<open>\<^verbatim>\<open>int(x)\<close> on a decoded JSON value.\<close>

fun int_of_json :: "json \<Rightarrow> exn + int" where
  "int_of_json (JNum n) = Inr n"
| "int_of_json (JBool b) = Inr (if b then 1 else 0)"
| "int_of_json (JStr s) = (case py_int s of None \<Rightarrow> Inl ValueError | Some n \<Rightarrow> Inr n)"
| "int_of_json JNull = Inl TypeError"
| "int_of_json (JList xs) = Inl TypeError"
| "int_of_json (JObj kvs) = Inl TypeError"

text \<open>\<^verbatim>\<open>[int(x) for x in chat_ids]\<close>: the first element that \<^verbatim>\<open>int\<close> refuses
  raises.\<close>

fun ints_of :: "json list \<Rightarrow> exn + int list" where
  "ints_of [] = Inr []"
| "ints_of (x # xs) =
     (case int_of_json x of
        Inl e \<Rightarrow> Inl e
      | Inr n \<Rightarrow> (case ints_of xs of Inl e \<Rightarrow> Inl e | Inr ns \<Rightarrow> Inr (n # ns)))"

definition load_config :: "config_file \<Rightarrow> exn + (string \<times> json) list" where
  "load_config file =
     (case file of
        Missing \<Rightarrow> Inl FileNotFoundError
      | Undecodable \<Rightarrow> Inl ValueError
      | Content raw \<Rightarrow>
          (case raw of
             JObj kvs \<Rightarrow>
               (let cfg = kvs @ defaults
                in if list_ex (\<lambda>key. \<not> truthy (dict_get cfg key)) required_keys
                   then Inl ValueError
                   else
                     (let chat_ids =
                            (if truthy (dict_get cfg ''telegram_chat_ids'')
                             then dict_get cfg ''telegram_chat_ids'' else JList [])
                      in case iter_json chat_ids of
                           Inl e \<Rightarrow> Inl e
                         | Inr xs \<Rightarrow>
                             (case ints_of xs of
                                Inl e \<Rightarrow> Inl e
                              | Inr ids \<Rightarrow>
                                  Inr ((''telegram_chat_ids'', JList (map JNum ids)) # cfg))))
           | _ \<Rightarrow> Inl TypeError))"

section \<open>\<^verbatim>\<open>get_current_ip\<close>\<close>

definition methods :: "string list" where
  "methods =
     [''https://api.ipify.org'', ''https://ifconfig.me/ip'',
      ''https://checkip.amazonaws.com'']"

text \<open>
  The \<^verbatim>\<open>for url, parser in methods\<close> loop, with \<^verbatim>\<open>last_error\<close> as an argument. Every
  parser is \<^verbatim>\<open>decode\<close> then \<^verbatim>\<open>strip\<close>. An exception inside the \<^verbatim>\<open>try\<close> (from the
  request or from the validator) is stored in \<^verbatim>\<open>last_error\<close>; a rejected value is not.
\<close>

fun query_loop ::
  "(string \<Rightarrow> ip_answer) \<Rightarrow> string list \<Rightarrow> exn option \<Rightarrow> (exn + string) \<times> event list" where
  "query_loop svc [] last_error = (Inl (NoPublicIP last_error), [])"
| "query_loop svc (url # rest) last_error =
     (case svc url of
        IpRaises e \<Rightarrow>
          (case query_loop svc rest (Some e) of (r, evs) \<Rightarrow> (r, IpQuery url # evs))
      | IpBody body \<Rightarrow>
          (case is_valid_public_ipv4 (strip body) of
             Inl e \<Rightarrow>
               (case query_loop svc rest (Some e) of (r, evs) \<Rightarrow> (r, IpQuery url # evs))
           | Inr ok \<Rightarrow>
               if ok then (Inr (strip body), [IpQuery url])
               else
                 (case query_loop svc rest last_error of
                    (r, evs) \<Rightarrow> (r, IpQuery url # evs))))"

definition get_current_ip :: "(string \<Rightarrow> ip_answer) \<Rightarrow> (exn + string) \<times> event list" where
  "get_current_ip svc = query_loop svc methods None"

section \<open>The Cloudflare client\<close>

text \<open>
  \<open>answer\<close> is what the network gives for this request: the decoded body, or the
  exception raised before \<^verbatim>\<open>cloudflare_request\<close> returns.
\<close>

definition cloudflare_request ::
  "config \<Rightarrow> exn + json \<Rightarrow> string \<Rightarrow> cf_url \<Rightarrow> json option \<Rightarrow> (exn + json) \<times> event list" where
  "cloudflare_request cfg answer method url data =
     (answer, [CfRequest (cloudflare_api_token cfg) method url data])"

text \<open>\<^verbatim>\<open>x.get(k)\<close>: only a \<^verbatim>\<open>dict\<close> has the method.\<close>

fun get_method :: "json \<Rightarrow> string \<Rightarrow> exn + json" where
  "get_method (JObj kvs) k = Inr (dict_get kvs k)"
| "get_method JNull k = Inl AttributeError"
| "get_method (JBool b) k = Inl AttributeError"
| "get_method (JNum n) k = Inl AttributeError"
| "get_method (JStr s) k = Inl AttributeError"
| "get_method (JList xs) k = Inl AttributeError"

text \<open>\<^verbatim>\<open>x[0]\<close>: the first element of a list or string; a \<^verbatim>\<open>dict\<close> decoded from JSON
  has string keys only.\<close>

fun subscript0 :: "json \<Rightarrow> exn + json" where
  "subscript0 (JList xs) = (case xs of [] \<Rightarrow> Inl IndexError | x # _ \<Rightarrow> Inr x)"
| "subscript0 (JStr s) = (case s of [] \<Rightarrow> Inl IndexError | c # _ \<Rightarrow> Inr (JStr [c]))"
| "subscript0 (JObj kvs) = Inl (KeyError ''0'')"
| "subscript0 JNull = Inl TypeError"
| "subscript0 (JBool b) = Inl TypeError"
| "subscript0 (JNum n) = Inl TypeError"

text \<open>\<^verbatim>\<open>x[k]\<close> for a string \<open>k\<close>.\<close>

fun subscript :: "json \<Rightarrow> string \<Rightarrow> exn + json" where
  "subscript (JObj kvs) k = (case map_of kvs k of None \<Rightarrow> Inl (KeyError k) | Some v \<Rightarrow> Inr v)"
| "subscript JNull k = Inl TypeError"
| "subscript (JBool b) k = Inl TypeError"
| "subscript (JNum n) k = Inl TypeError"
| "subscript (JStr s) k = Inl TypeError"
| "subscript (JList xs) k = Inl TypeError"

text \<open>The body of \<^verbatim>\<open>get_cloudflare_record\<close> after the request has returned \<open>data\<close>.\<close>

definition record_of_response :: "json \<Rightarrow> exn + json \<times> json \<times> json" where
  "record_of_response data =
     (case get_method data ''success'' of
        Inl e \<Rightarrow> Inl e
      | Inr success \<Rightarrow>
          (case (if truthy success then get_method data ''result'' else Inr success) of
             Inl e \<Rightarrow> Inl e
           | Inr found \<Rightarrow>
               if truthy found then
                 (case subscript data ''result'' of
                    Inl e \<Rightarrow> Inl e
                  | Inr result \<Rightarrow>
                      (case subscript0 result of
                         Inl e \<Rightarrow> Inl e
                       | Inr rec \<Rightarrow>
                           (case subscript rec ''id'' of
                              Inl e \<Rightarrow> Inl e
                            | Inr rid \<Rightarrow>
                                (case subscript rec ''content'' of
                                   Inl e \<Rightarrow> Inl e
                                 | Inr content \<Rightarrow>
                                     (case subscript rec ''proxied'' of
                                        Inl e \<Rightarrow> Inl e
                                      | Inr proxied \<Rightarrow> Inr (rid, content, proxied))))))
               else Inl RecordNotFound))"

definition get_cloudflare_record ::
  "config \<Rightarrow> exn + json \<Rightarrow> (exn + json \<times> json \<times> json) \<times> event list" where
  "get_cloudflare_record cfg answer =
     (case cloudflare_request cfg answer ''GET''
             (RecordsByName (zone_id cfg) (record_name cfg)) None of
        (Inl e, evs) \<Rightarrow> (Inl e, evs)
      | (Inr data, evs) \<Rightarrow> (record_of_response data, evs))"

definition update_payload :: "config \<Rightarrow> string \<Rightarrow> bool \<Rightarrow> json" where
  "update_payload cfg ip proxied =
     JObj [(''type'', JStr ''A''), (''name'', JStr (record_name cfg)),
           (''content'', JStr ip), (''ttl'', JNum 1), (''proxied'', JBool proxied)]"

definition update_cloudflare_dns ::
  "config \<Rightarrow> exn + json \<Rightarrow> json \<Rightarrow> string \<Rightarrow> bool \<Rightarrow> (exn + bool) \<times> event list" where
  "update_cloudflare_dns cfg answer record_id ip proxied =
     (case cloudflare_request cfg answer ''PUT'' (RecordById (zone_id cfg) record_id)
             (Some (update_payload cfg ip proxied)) of
        (Inl e, evs) \<Rightarrow> (Inl e, evs)
      | (Inr resp, evs) \<Rightarrow>
          (case get_method resp ''success'' of
             Inl e \<Rightarrow> (Inl e, evs)
           | Inr success \<Rightarrow> (Inr (truthy success), evs)))"

section \<open>\<^verbatim>\<open>send_telegram_message\<close>\<close>

text \<open>
  The body of the \<^verbatim>\<open>try\<close> for one chat: the request raises, or it returns status 200,
  or it returns another status and the body is read (which may raise) to be logged.
\<close>

fun deliver :: "tg_answer \<Rightarrow> exn + unit" where
  "deliver (TgRaises e) = Inl e"
| "deliver (TgStatus code body_error) =
     (if code = 200 then Inr ()
      else (case body_error of None \<Rightarrow> Inr () | Some e \<Rightarrow> Inl e))"

text \<open>The \<^verbatim>\<open>for chat_id in chat_ids\<close> loop; \<open>i\<close> is the position of the chat in the
  list. The \<^verbatim>\<open>except Exception\<close> clause logs and goes on with the next chat.\<close>

definition tg_payload :: "string \<Rightarrow> int \<Rightarrow> json" where
  "tg_payload message chat_id = JObj [(''chat_id'', JNum chat_id), (''text'', JStr message)]"

fun send_loop ::
  "string \<Rightarrow> string \<Rightarrow> (nat \<Rightarrow> tg_answer) \<Rightarrow> nat \<Rightarrow> int list \<Rightarrow> (exn + unit) \<times> event list" where
  "send_loop token message tg i [] = (Inr (), [])"
| "send_loop token message tg i (chat_id # rest) =
     (let payload = tg_payload message chat_id;
          request = TgSend token payload
      in case deliver (tg i) of
           Inl e \<Rightarrow>
             (case send_loop token message tg (Suc i) rest of (r, evs) \<Rightarrow> (r, request # evs))
         | Inr u \<Rightarrow>
             (case send_loop token message tg (Suc i) rest of (r, evs) \<Rightarrow> (r, request # evs)))"

definition send_telegram_message ::
  "config \<Rightarrow> (nat \<Rightarrow> tg_answer) \<Rightarrow> string \<Rightarrow> (exn + unit) \<times> event list" where
  "send_telegram_message cfg tg message =
     (case telegram_bot_token cfg of
        None \<Rightarrow> (Inr (), [])
      | Some bot_token \<Rightarrow>
          if bot_token = [] \<or> telegram_chat_ids cfg = [] then (Inr (), [])
          else send_loop bot_token message tg 0 (telegram_chat_ids cfg))"

section \<open>The loop of \<^verbatim>\<open>main\<close>\<close>

text \<open>
  The body of the inner \<^verbatim>\<open>try\<close> for one attempt. \<open>Inr True\<close>: the attempt ended in
  \<^verbatim>\<open>last_ip = current_ip; break\<close>. \<open>Inr False\<close>: the update returned a false
  \<^verbatim>\<open>success\<close>, which is logged, and the \<^verbatim>\<open>for\<close> loop goes on. \<open>Inl e\<close>: \<open>e\<close> was
  raised inside the \<^verbatim>\<open>try\<close>.
\<close>

definition update_message :: "config \<Rightarrow> string \<Rightarrow> string" where
  "update_message cfg current_ip =
     ''IP pubblico aggiornato per '' @ record_name cfg @ '':'' @ [newline] @ current_ip"

definition attempt_body ::
  "config \<Rightarrow> tick_env \<Rightarrow> string \<Rightarrow> int \<Rightarrow> (exn + bool) \<times> event list" where
  "attempt_body cfg env current_ip attempt =
     (case get_cloudflare_record cfg (cf_fetch env attempt) of
        (Inl e, evs) \<Rightarrow> (Inl e, evs)
      | (Inr (record_id, cf_ip, cf_proxied), evs) \<Rightarrow>
          if JStr current_ip \<noteq> cf_ip \<or> truthy cf_proxied then
            (case update_cloudflare_dns cfg (cf_update env attempt) record_id current_ip False of
               (Inl e, evs2) \<Rightarrow> (Inl e, evs @ evs2)
             | (Inr success, evs2) \<Rightarrow>
                 if success then
                   (case send_telegram_message cfg (tg_service env)
                           (update_message cfg current_ip) of
                      (Inl e, evs3) \<Rightarrow> (Inl e, evs @ evs2 @ evs3)
                    | (Inr u, evs3) \<Rightarrow> (Inr True, evs @ evs2 @ evs3))
                 else (Inr False, evs @ evs2))
          else (Inr True, evs))"

text \<open>
  The \<^verbatim>\<open>for attempt in range(1, cfg["max_retries"] + 1)\<close> loop over the attempts that are
  left, with \<^verbatim>\<open>last_ip\<close> as an argument and in the result. The \<^verbatim>\<open>except\<close> clause
  sleeps when \<^verbatim>\<open>attempt < max_retries\<close>; an exception of that \<^verbatim>\<open>time.sleep\<close> leaves
  the loop.
\<close>

fun retry_loop ::
  "config \<Rightarrow> tick_env \<Rightarrow> string \<Rightarrow> int list \<Rightarrow> string option \<Rightarrow>
     (exn + unit) \<times> string option \<times> event list" where
  "retry_loop cfg env current_ip [] last_ip = (Inr (), last_ip, [])"
| "retry_loop cfg env current_ip (attempt # rest) last_ip =
     (case attempt_body cfg env current_ip attempt of
        (Inr brk, evs) \<Rightarrow>
          if brk then (Inr (), Some current_ip, evs)
          else
            (case retry_loop cfg env current_ip rest last_ip of
               (r, l, evs') \<Rightarrow> (r, l, evs @ evs'))
      | (Inl e, evs) \<Rightarrow>
          if attempt < max_retries cfg then
            (case time_sleep (retry_delay cfg) of
               (Inl e', evs2) \<Rightarrow> (Inl e', last_ip, evs @ evs2)
             | (Inr u, evs2) \<Rightarrow>
                 (case retry_loop cfg env current_ip rest last_ip of
                    (r, l, evs') \<Rightarrow> (r, l, evs @ evs2 @ evs')))
          else
            (case retry_loop cfg env current_ip rest last_ip of
               (r, l, evs') \<Rightarrow> (r, l, evs @ evs')))"

definition reconcile ::
  "config \<Rightarrow> tick_env \<Rightarrow> string \<Rightarrow> string option \<Rightarrow>
     (exn + unit) \<times> string option \<times> event list" where
  "reconcile cfg env current_ip last_ip =
     retry_loop cfg env current_ip [1..max_retries cfg] last_ip"




section \<open>Notions used to state the properties\<close>

text \<open>A group that \<^verbatim>\<open>\d{1,3}\<close> matches: one to three decimal digits.\<close>

definition octet :: "string \<Rightarrow> bool" where
  "octet ds = (1 \<le> length ds \<and> length ds \<le> 3 \<and> list_all is_digit ds)"

text \<open>The first two octets of an address in 10.0.0.0/8, 127.0.0.0/8, 172.16.0.0/12 or
  192.168.0.0/16.\<close>

definition private_range :: "nat \<Rightarrow> nat \<Rightarrow> bool" where
  "private_range o1 o2 =
     (o1 = 10 \<or> o1 = 127 \<or> (o1 = 172 \<and> 16 \<le> o2 \<and> o2 \<le> 31) \<or> (o1 = 192 \<and> o2 = 168))"

text \<open>The repeated group \<^verbatim>\<open>\d{1,3}\.\<close> of the pattern.\<close>

definition octet_dot :: regex where
  "octet_dot = Seq (Rep 1 3 Digit) (Chr CHR ''.'')"

text \<open>A discovery service fails for the resolver: the request raises, or the value it
  returns is not accepted by the validator.\<close>

fun rejected :: "ip_answer \<Rightarrow> bool" where
  "rejected (IpRaises e) = True"
| "rejected (IpBody body) = (is_valid_public_ipv4 (strip body) \<noteq> Inr True)"

text \<open>The exception of the last answer that raised, \<open>None\<close> when no answer raised.\<close>

fun last_raised :: "ip_answer list \<Rightarrow> exn option" where
  "last_raised [] = None"
| "last_raised (a # as) =
     (case last_raised as of
        Some e \<Rightarrow> Some e
      | None \<Rightarrow> (case a of IpRaises e \<Rightarrow> Some e | IpBody body \<Rightarrow> None))"

text \<open>A duration that \<^verbatim>\<open>time.sleep\<close> accepts.\<close>

definition sleepable :: "int \<Rightarrow> bool" where
  "sleepable d = (0 \<le> d \<and> d \<le> max_sleep)"

text \<open>
  The two requests the loop is expected to send to Cloudflare, written out: the GET of
  the A records of the configured name, and the PUT that replaces record \<open>record_id\<close>
  by an A record of the configured name with content \<open>ip\<close>, automatic TTL and the proxy
  off.
\<close>

definition fetch_event :: "config \<Rightarrow> event" where
  "fetch_event cfg =
     CfRequest (cloudflare_api_token cfg) ''GET''
       (RecordsByName (zone_id cfg) (record_name cfg)) None"

definition put_event :: "config \<Rightarrow> json \<Rightarrow> string \<Rightarrow> event" where
  "put_event cfg record_id ip =
     CfRequest (cloudflare_api_token cfg) ''PUT'' (RecordById (zone_id cfg) record_id)
       (Some (JObj [(''type'', JStr ''A''), (''name'', JStr (record_name cfg)),
                    (''content'', JStr ip), (''ttl'', JNum 1), (''proxied'', JBool False)]))"

text \<open>A write is a PUT request to Cloudflare; a provider call is any request to it.\<close>

fun is_write :: "event \<Rightarrow> bool" where
  "is_write (CfRequest token method url data) = (method = ''PUT'')"
| "is_write (IpQuery url) = False"
| "is_write (TgSend token payload) = False"
| "is_write (Sleep d) = False"

fun is_provider_call :: "event \<Rightarrow> bool" where
  "is_provider_call (CfRequest token method url data) = True"
| "is_provider_call (IpQuery url) = False"
| "is_provider_call (TgSend token payload) = False"
| "is_provider_call (Sleep d) = False"


section \<open>Example inputs\<close>

definition example_cfg :: config where
  "example_cfg =
     \<lparr>cloudflare_api_token = ''secret'', zone_id = ''zone1'',
      record_name = ''home.example.org'', check_interval = 30, max_retries = 5,
      retry_delay = 5, telegram_bot_token = None, telegram_chat_ids = []\<rparr>"

definition example_cfg_tg :: config where
  "example_cfg_tg =
     example_cfg\<lparr>telegram_bot_token := Some ''bot'', telegram_chat_ids := [11, 22]\<rparr>"

text \<open>Telegram refuses the connection for the first chat and accepts the second.\<close>

definition example_tg :: "nat \<Rightarrow> tg_answer" where
  "example_tg i = (if i = 0 then TgRaises (NetworkError ''refused'') else TgStatus 200 None)"

definition example_record :: "string \<Rightarrow> bool \<Rightarrow> json" where
  "example_record ip proxied =
     JObj [(''id'', JStr ''abc''), (''content'', JStr ip), (''proxied'', JBool proxied)]"

definition example_found :: "string \<Rightarrow> bool \<Rightarrow> (string \<times> json) list" where
  "example_found ip proxied =
     [(''success'', JBool True), (''result'', JList [example_record ip proxied])]"

definition example_no_match :: "(string \<times> json) list" where
  "example_no_match = [(''success'', JBool True), (''result'', JList [])]"

definition example_raw :: "(string \<times> json) list" where
  "example_raw =
     [(''cloudflare_api_token'', JStr ''secret''), (''zone_id'', JStr ''zone1''),
      (''record_name'', JStr ''home.example.org'')]"

definition example_body :: string where
  "example_body = ''203.0.113.5'' @ [newline]"

text \<open>The first service times out, the second answers with a public address and a
  line feed, the third is not needed.\<close>

definition example_svc :: "string \<Rightarrow> ip_answer" where
  "example_svc url =
     (if url = ''https://api.ipify.org'' then IpRaises (NetworkError ''timeout'')
      else if url = ''https://ifconfig.me/ip'' then IpBody example_body
      else IpBody ''198.51.100.9'')"

text \<open>The first service times out, the second answers with a private address, the
  third with a web page.\<close>

definition example_svc_down :: "string \<Rightarrow> ip_answer" where
  "example_svc_down url =
     (if url = ''https://api.ipify.org'' then IpRaises (NetworkError ''timeout'')
      else if url = ''https://ifconfig.me/ip'' then IpBody ''10.0.0.1''
      else IpBody ''<html>'')"

text \<open>A tick in which every discovery service answers \<open>body\<close> and Cloudflare answers
  as \<open>fetch\<close> and \<open>update\<close> say.\<close>

definition example_env ::
  "string \<Rightarrow> (int \<Rightarrow> exn + json) \<Rightarrow> (int \<Rightarrow> exn + json) \<Rightarrow> tick_env" where
  "example_env body fetch update =
     \<lparr>ip_service = (\<lambda>url. IpBody body), cf_fetch = fetch, cf_update = update,
      tg_service = example_tg\<rparr>"

definition example_cfg2 :: config where
  "example_cfg2 = example_cfg\<lparr>max_retries := 2\<rparr>"

text \<open>Cloudflare holds another address and answers every update with
  \<^verbatim>\<open>{"success": false}\<close>.\<close>

definition example_env_refused :: tick_env where
  "example_env_refused =
     example_env ''203.0.113.5'' (\<lambda>a. Inr (JObj (example_found ''203.0.113.4'' False)))
       (\<lambda>a. Inr (JObj [(''success'', JBool False)]))"


text \<open>Cloudflare holds the address with the proxy on and accepts the update.\<close>

definition example_env_proxied :: tick_env where
  "example_env_proxied =
     example_env ''203.0.113.5'' (\<lambda>a. Inr (JObj (example_found ''203.0.113.5'' True)))
       (\<lambda>a. Inr (JObj [(''success'', JBool True)]))"


text \<open>Cloudflare holds the address with the proxy on and answers every update with
  \<^verbatim>\<open>{"success": false}\<close>.\<close>

definition example_env_proxied_refused :: tick_env where
  "example_env_proxied_refused =
     example_env ''203.0.113.5'' (\<lambda>a. Inr (JObj (example_found ''203.0.113.5'' True)))
       (\<lambda>a. Inr (JObj [(''success'', JBool False)]))"



section \<open>The notifier\<close>

lemma send_loop_all:
  "send_loop token message tg i ids =
     (Inr (), map (\<lambda>c. TgSend token (tg_payload message c)) ids)"
  by (induction ids arbitrary: i) (auto simp: Let_def split: sum.splits)

text \<open>
  Claim C8. \<^verbatim>\<open>send_telegram_message\<close> returns normally whatever Telegram answers for
  each chat. Without a bot token (absent or empty) or without chat ids it sends nothing.
  With both it sends one request per configured chat, in order and with the same
  message, whatever the answers to the other chats were.
\<close>

theorem send_telegram_message_contract:
  "fst (send_telegram_message cfg tg message) = Inr () \<and>
   (telegram_bot_token cfg = None \<or> telegram_bot_token cfg = Some [] \<or>
    telegram_chat_ids cfg = []
      \<longrightarrow> snd (send_telegram_message cfg tg message) = []) \<and>
   (\<forall>token. telegram_bot_token cfg = Some token \<and> token \<noteq> [] \<longrightarrow>
      snd (send_telegram_message cfg tg message) =
        map (\<lambda>c. TgSend token (tg_payload message c)) (telegram_chat_ids cfg))"
  by (auto simp: send_telegram_message_def send_loop_all split: option.splits)

theorem send_telegram_message_contract_witness:
  "fst (send_telegram_message example_cfg_tg example_tg ''hello'') = Inr () \<and>
   snd (send_telegram_message example_cfg example_tg ''hello'') = [] \<and>
   snd (send_telegram_message example_cfg_tg example_tg ''hello'') =
     [TgSend ''bot'' (tg_payload ''hello'' 11), TgSend ''bot'' (tg_payload ''hello'' 22)]"
  using send_telegram_message_contract [of example_cfg_tg example_tg "''hello''"]
    send_telegram_message_contract [of example_cfg example_tg "''hello''"]
  by (simp add: example_cfg_tg_def example_cfg_def)

section \<open>\<^verbatim>\<open>get_cloudflare_record\<close>\<close>

lemma subscript_not_found: "subscript x k \<noteq> Inl RecordNotFound"
  by (cases x) (auto split: option.splits)

lemma subscript0_not_found: "subscript0 x \<noteq> Inl RecordNotFound"
  by (cases x) (auto split: list.splits)

lemma record_of_response_not_found:
  "record_of_response data = Inl RecordNotFound \<longleftrightarrow>
     (\<exists>kvs. data = JObj kvs \<and>
        (\<not> truthy (dict_get kvs ''success'') \<or> \<not> truthy (dict_get kvs ''result'')))"
  apply (cases data)
  apply (auto simp: record_of_response_def subscript_not_found subscript0_not_found
      split: sum.splits option.splits if_splits)
  done

lemma record_of_response_first:
  assumes "truthy (dict_get kvs ''success'')"
    and "map_of kvs ''result'' = Some (JList (JObj rec # others))"
    and "map_of rec ''id'' = Some rid"
    and "map_of rec ''content'' = Some content"
    and "map_of rec ''proxied'' = Some proxied"
  shows "record_of_response (JObj kvs) = Inr (rid, content, proxied)"
  using assms by (simp add: record_of_response_def)

text \<open>
  Claim C9. For a decoded response whose \<^verbatim>\<open>success\<close> is true and whose \<^verbatim>\<open>result\<close>
  is a non-empty list, \<^verbatim>\<open>get_cloudflare_record\<close> returns the \<^verbatim>\<open>id\<close>, \<^verbatim>\<open>content\<close> and
  \<^verbatim>\<open>proxied\<close> entries of the first element of the list. It raises the "record not
  found" error exactly when the response is an object whose \<^verbatim>\<open>success\<close> is false or
  absent, or whose \<^verbatim>\<open>result\<close> is empty or absent. It only issues the one GET request.
\<close>

theorem get_cloudflare_record_result:
  "(truthy (dict_get kvs ''success'') \<and>
    map_of kvs ''result'' = Some (JList (JObj rec # others)) \<and>
    map_of rec ''id'' = Some rid \<and> map_of rec ''content'' = Some content \<and>
    map_of rec ''proxied'' = Some proxied
    \<longrightarrow> fst (get_cloudflare_record cfg (Inr (JObj kvs))) = Inr (rid, content, proxied)) \<and>
   (fst (get_cloudflare_record cfg (Inr data)) = Inl RecordNotFound \<longleftrightarrow>
      (\<exists>obj. data = JObj obj \<and>
         (\<not> truthy (dict_get obj ''success'') \<or> \<not> truthy (dict_get obj ''result'')))) \<and>
   snd (get_cloudflare_record cfg (Inr data)) =
     [CfRequest (cloudflare_api_token cfg) ''GET''
        (RecordsByName (zone_id cfg) (record_name cfg)) None]"
  using record_of_response_not_found [of data]
  by (auto simp: get_cloudflare_record_def cloudflare_request_def record_of_response_first)

theorem get_cloudflare_record_result_witness:
  "fst (get_cloudflare_record example_cfg
          (Inr (JObj (example_found ''203.0.113.4'' True)))) =
     Inr (JStr ''abc'', JStr ''203.0.113.4'', JBool True) \<and>
   fst (get_cloudflare_record example_cfg (Inr (JObj example_no_match))) =
     Inl RecordNotFound"
  using get_cloudflare_record_result
    [of "example_found ''203.0.113.4'' True"
        "[(''id'', JStr ''abc''), (''content'', JStr ''203.0.113.4''), (''proxied'', JBool True)]"
        "[]" "JStr ''abc''" "JStr ''203.0.113.4''" "JBool True" example_cfg
        "JObj example_no_match"]
  by (simp add: example_found_def example_record_def example_no_match_def)

section \<open>\<^verbatim>\<open>load_config\<close>\<close>

lemma ints_of_fails:
  "x \<in> set xs \<Longrightarrow> int_of_json x = Inl e \<Longrightarrow> \<exists>e'. ints_of xs = Inl e'"
  by (induction xs) (auto split: sum.splits)

lemma load_config_bad_target:
  assumes "map_of kvs ''telegram_chat_ids'' = Some (JList xs)"
    and "x \<in> set xs" and "int_of_json x = Inl e"
  shows "\<exists>e'. load_config (Content (JObj kvs)) = Inl e'"
proof -
  from assms obtain e' where e': "ints_of xs = Inl e'"
    using ints_of_fails by blast
  from assms(2) have ne: "xs \<noteq> []" by auto
  show ?thesis
    using assms(1) e' ne
    by (auto simp: load_config_def Let_def split: sum.splits)
qed

lemma load_config_no_targets:
  assumes "truthy (dict_get kvs ''cloudflare_api_token'')"
    and "truthy (dict_get kvs ''zone_id'')"
    and "truthy (dict_get kvs ''record_name'')"
    and "map_of kvs ''telegram_chat_ids'' = None \<or>
         map_of kvs ''telegram_chat_ids'' = Some JNull"
  shows "load_config (Content (JObj kvs)) =
           Inr ((''telegram_chat_ids'', JList []) # kvs @ defaults)"
  using assms
  by (auto simp: load_config_def Let_def required_keys_def defaults_def split: option.splits)

text \<open>
  Claim C10. When the list under \<^verbatim>\<open>telegram_chat_ids\<close> has an element that \<^verbatim>\<open>int\<close>
  refuses, \<^verbatim>\<open>load_config\<close> raises, although the Telegram settings are optional. When
  the key is absent or \<^verbatim>\<open>null\<close> and the three required keys are set, \<^verbatim>\<open>load_config\<close>
  returns the configuration with \<^verbatim>\<open>telegram_chat_ids\<close> set to the empty list.
\<close>

theorem load_config_chat_ids:
  "(map_of kvs ''telegram_chat_ids'' = Some (JList xs) \<and> x \<in> set xs \<and>
    int_of_json x = Inl e
      \<longrightarrow> (\<exists>e'. load_config (Content (JObj kvs)) = Inl e')) \<and>
   (truthy (dict_get kvs ''cloudflare_api_token'') \<and> truthy (dict_get kvs ''zone_id'') \<and>
    truthy (dict_get kvs ''record_name'') \<and>
    (map_of kvs ''telegram_chat_ids'' = None \<or>
     map_of kvs ''telegram_chat_ids'' = Some JNull)
      \<longrightarrow> (\<exists>cfg. load_config (Content (JObj kvs)) = Inr cfg \<and>
                 dict_get cfg ''telegram_chat_ids'' = JList []))"
  using load_config_bad_target [of kvs xs x e] load_config_no_targets [of kvs]
  by auto

theorem load_config_chat_ids_witness:
  "(\<exists>e'. load_config
            (Content (JObj ((''telegram_chat_ids'', JList [JNum 11, JStr ''me'']) # example_raw)))
          = Inl e') \<and>
   (\<exists>cfg. load_config (Content (JObj example_raw)) = Inr cfg \<and>
          dict_get cfg ''telegram_chat_ids'' = JList []) \<and>
   (\<exists>cfg. load_config
            (Content (JObj ((''telegram_chat_ids'', JNull) # example_raw))) = Inr cfg \<and>
          dict_get cfg ''telegram_chat_ids'' = JList [])"
  using load_config_chat_ids
      [of "(''telegram_chat_ids'', JList [JNum 11, JStr ''me'']) # example_raw"
          "[JNum 11, JStr ''me'']" "JStr ''me''" ValueError]
    load_config_chat_ids [of example_raw]
    load_config_chat_ids [of "(''telegram_chat_ids'', JNull) # example_raw"]
  by (simp add: example_raw_def py_int_def int_strip_def)

section \<open>The validator\<close>

declare is_digit.simps [simp del] is_space.simps [simp del] is_int_space.simps [simp del]
  re_run.simps [simp del]

lemma re_iter_Suc_set:
  "r \<in> set (re_iter m (Suc n) s) \<longleftrightarrow> (\<exists>r'. r' \<in> set (m s) \<and> r \<in> set (re_iter m n r'))"
  by auto

lemma re_run_Digit_set:
  "r' \<in> set (re_run Digit s) \<longleftrightarrow> (\<exists>c. s = c # r' \<and> is_digit c)"
  by (cases s) (auto simp: re_run.simps)

lemma re_run_Chr_set:
  "r' \<in> set (re_run (Chr a) s) \<longleftrightarrow> s = a # r'"
  by (cases s) (auto simp: re_run.simps)

lemma re_run_Seq_set:
  "r \<in> set (re_run (Seq p q) s) \<longleftrightarrow> (\<exists>r'. r' \<in> set (re_run p s) \<and> r \<in> set (re_run q r'))"
  by (auto simp: re_run.simps)

lemma re_run_Dollar_set:
  "r \<in> set (re_run Dollar s) \<longleftrightarrow> r = s \<and> (s = [] \<or> s = [newline])"
  by (auto simp: re_run.simps)

lemma re_iter_digits:
  "r \<in> set (re_iter (re_run Digit) n s) \<longleftrightarrow>
     (\<exists>ds. s = ds @ r \<and> length ds = n \<and> list_all is_digit ds)"
proof (induction n arbitrary: s)
  case 0
  then show ?case by auto
next
  case (Suc n)
  have "r \<in> set (re_iter (re_run Digit) (Suc n) s) \<longleftrightarrow>
        (\<exists>c s'. s = c # s' \<and> is_digit c \<and> r \<in> set (re_iter (re_run Digit) n s'))"
    unfolding re_iter_Suc_set re_run_Digit_set by blast
  also have "\<dots> \<longleftrightarrow>
        (\<exists>c s'. s = c # s' \<and> is_digit c \<and>
           (\<exists>ds. s' = ds @ r \<and> length ds = n \<and> list_all is_digit ds))"
    unfolding Suc.IH ..
  also have "\<dots> \<longleftrightarrow> (\<exists>ds. s = ds @ r \<and> length ds = Suc n \<and> list_all is_digit ds)"
  proof
    assume "\<exists>c s'. s = c # s' \<and> is_digit c \<and>
           (\<exists>ds. s' = ds @ r \<and> length ds = n \<and> list_all is_digit ds)"
    then obtain c s' ds where "s = c # s'" "is_digit c" "s' = ds @ r" "length ds = n"
      "list_all is_digit ds" by blast
    then have "s = (c # ds) @ r \<and> length (c # ds) = Suc n \<and> list_all is_digit (c # ds)"
      by simp
    then show "\<exists>ds. s = ds @ r \<and> length ds = Suc n \<and> list_all is_digit ds" by blast
  next
    assume "\<exists>ds. s = ds @ r \<and> length ds = Suc n \<and> list_all is_digit ds"
    then obtain ds where ds: "s = ds @ r" "length ds = Suc n" "list_all is_digit ds" by blast
    then obtain d ds' where "ds = d # ds'" by (cases ds) auto
    with ds have "s = d # (ds' @ r) \<and> is_digit d \<and> ds' @ r = ds' @ r \<and> length ds' = n \<and>
       list_all is_digit ds'" by simp
    then show "\<exists>c s'. s = c # s' \<and> is_digit c \<and>
           (\<exists>ds. s' = ds @ r \<and> length ds = n \<and> list_all is_digit ds)" by blast
  qed
  finally show ?case .
qed

lemma upt_1_4: "[1..<Suc 3] = [1, 2, 3]"
  by (simp add: upt_rec)

lemma re_run_octet:
  "r \<in> set (re_run (Rep 1 3 Digit) s) \<longleftrightarrow> (\<exists>ds. s = ds @ r \<and> octet ds)"
proof -
  have "re_run (Rep 1 3 Digit) s =
          re_iter (re_run Digit) 3 s @ re_iter (re_run Digit) 2 s @ re_iter (re_run Digit) 1 s"
    by (simp only: re_run.simps(4) upt_1_4 rev.simps append.simps list.map concat.simps
        append_Nil2)
  then have "r \<in> set (re_run (Rep 1 3 Digit) s) \<longleftrightarrow>
        (r \<in> set (re_iter (re_run Digit) 3 s) \<or> r \<in> set (re_iter (re_run Digit) 2 s) \<or>
         r \<in> set (re_iter (re_run Digit) 1 s))"
    by (simp only: set_append Un_iff)
  also have "\<dots> \<longleftrightarrow> (\<exists>ds. s = ds @ r \<and> octet ds)"
    unfolding re_iter_digits octet_def
  proof
    assume "(\<exists>ds. s = ds @ r \<and> length ds = 3 \<and> list_all is_digit ds) \<or>
            (\<exists>ds. s = ds @ r \<and> length ds = 2 \<and> list_all is_digit ds) \<or>
            (\<exists>ds. s = ds @ r \<and> length ds = 1 \<and> list_all is_digit ds)"
    then obtain ds where "s = ds @ r" "length ds = 3 \<or> length ds = 2 \<or> length ds = 1"
      "list_all is_digit ds" by blast
    then have "s = ds @ r \<and> 1 \<le> length ds \<and> length ds \<le> 3 \<and> list_all is_digit ds"
      by auto
    then show "\<exists>ds. s = ds @ r \<and> 1 \<le> length ds \<and> length ds \<le> 3 \<and> list_all is_digit ds"
      by blast
  next
    assume "\<exists>ds. s = ds @ r \<and> 1 \<le> length ds \<and> length ds \<le> 3 \<and> list_all is_digit ds"
    then obtain ds where ds: "s = ds @ r" "1 \<le> length ds" "length ds \<le> 3"
      "list_all is_digit ds" by blast
    then have "length ds = 3 \<or> length ds = 2 \<or> length ds = 1" by arith
    with ds show "(\<exists>ds. s = ds @ r \<and> length ds = 3 \<and> list_all is_digit ds) \<or>
            (\<exists>ds. s = ds @ r \<and> length ds = 2 \<and> list_all is_digit ds) \<or>
            (\<exists>ds. s = ds @ r \<and> length ds = 1 \<and> list_all is_digit ds)" by blast
  qed
  finally show ?thesis .
qed

lemma re_run_octet_dot:
  "r \<in> set (re_run octet_dot s) \<longleftrightarrow> (\<exists>ds. s = ds @ CHR ''.'' # r \<and> octet ds)"
  unfolding octet_dot_def re_run_Seq_set re_run_Chr_set
  using re_run_octet by blast

lemma re_iter_octet_dot3:
  "r \<in> set (re_iter (re_run octet_dot) 3 s) \<longleftrightarrow>
     (\<exists>a b c. s = a @ CHR ''.'' # b @ CHR ''.'' # c @ CHR ''.'' # r \<and>
        octet a \<and> octet b \<and> octet c)"
proof -
  have three: "(3::nat) = Suc (Suc (Suc 0))" by simp
  have zero: "\<And>x y. x \<in> set (re_iter (re_run octet_dot) 0 y) \<longleftrightarrow> x = y" by simp
  show ?thesis
    unfolding three re_iter_Suc_set zero re_run_octet_dot
    by (auto simp del: re_iter.simps)
qed


lemma upt_3_4: "rev [3..<Suc 3] = [3]"
  by (simp add: upt_rec)

lemma re_match_ipv4:
  "re_match ipv4_pattern s \<longleftrightarrow>
     (\<exists>a b c d t. s = a @ CHR ''.'' # b @ CHR ''.'' # c @ CHR ''.'' # d @ t \<and>
        octet a \<and> octet b \<and> octet c \<and> octet d \<and> (t = [] \<or> t = [newline]))"
proof -
  have rep3: "\<And>x. re_run (Rep 3 3 octet_dot) x = re_iter (re_run octet_dot) 3 x"
    by (simp only: re_run.simps(4) upt_3_4 list.map concat.simps append_Nil2)
  have "re_match ipv4_pattern s \<longleftrightarrow> (\<exists>r. r \<in> set (re_run ipv4_pattern s))"
    unfolding re_match_def by (cases "re_run ipv4_pattern s") auto
  also have "\<dots> \<longleftrightarrow>
     (\<exists>r r' r''. r' \<in> set (re_iter (re_run octet_dot) 3 s) \<and>
        r'' \<in> set (re_run (Rep 1 3 Digit) r') \<and> r \<in> set (re_run Dollar r''))"
    unfolding ipv4_pattern_def octet_dot_def [symmetric] re_run_Seq_set rep3 by blast
  also have "\<dots> \<longleftrightarrow>
     (\<exists>a b c d t. s = a @ CHR ''.'' # b @ CHR ''.'' # c @ CHR ''.'' # d @ t \<and>
        octet a \<and> octet b \<and> octet c \<and> octet d \<and> (t = [] \<or> t = [newline]))"
    unfolding re_iter_octet_dot3 re_run_octet re_run_Dollar_set by blast
  finally show ?thesis .
qed

lemma is_digit_chars:
  assumes "is_digit c"
  shows "\<not> is_int_space c" "c \<noteq> CHR ''.''" "c \<noteq> CHR ''_''" "c \<noteq> CHR ''-''" "c \<noteq> CHR ''+''"
  using assms by (auto simp: is_digit.simps is_int_space.simps Let_def)

lemma split_on_no_sep: "d \<notin> set s \<Longrightarrow> split_on d s = [s]"
  by (induction s) auto

lemma split_on_append: "d \<notin> set a \<Longrightarrow> split_on d (a @ d # r) = a # split_on d r"
  by (induction a) auto

lemma digits_no_dot: "list_all is_digit ds \<Longrightarrow> CHR ''.'' \<notin> set ds"
  using is_digit_chars(2) by (auto simp: list_all_iff)

lemma split_on_ipv4:
  assumes "octet a" "octet b" "octet c" "octet d" "t = [] \<or> t = [newline]"
  shows "split_on CHR ''.'' (a @ CHR ''.'' # b @ CHR ''.'' # c @ CHR ''.'' # d @ t) =
           [a, b, c, d @ t]"
proof -
  have "CHR ''.'' \<notin> set (d @ t)"
    using assms(4,5) digits_no_dot [of d] by (auto simp: octet_def newline_def)
  then show ?thesis
    using assms(1-3) digits_no_dot
    by (simp add: split_on_append split_on_no_sep octet_def)
qed

lemma int_literal_digits: "ds \<noteq> [] \<Longrightarrow> list_all is_digit ds \<Longrightarrow> int_literal ds"
  by (induction ds rule: int_literal.induct) (auto simp: is_digit_chars)

lemma filter_digits: "list_all is_digit ds \<Longrightarrow> filter (\<lambda>c. c \<noteq> CHR ''_'') ds = ds"
  by (induction ds) (auto simp: is_digit_chars)

lemma int_strip_digits:
  assumes "ds \<noteq> []" "list_all is_digit ds" "t = [] \<or> t = [newline]"
  shows "int_strip (ds @ t) = ds"
proof -
  have hd: "\<not> is_int_space (hd ds)" and lst: "\<not> is_int_space (last ds)"
    using assms(1,2) is_digit_chars(1) by (auto simp: list_all_iff)
  have nl: "is_int_space newline" by (simp add: is_int_space.simps newline_def Let_def)
  have front: "dropWhile is_int_space (ds @ t) = ds @ t"
    using assms(1) hd by (cases ds) auto
  have rear: "dropWhile is_int_space (rev (ds @ t)) = rev ds"
  proof -
    have "dropWhile is_int_space (rev ds) = rev ds"
      using assms(1) lst by (cases "rev ds") (auto simp: last_rev hd_rev)
    then show ?thesis using assms(3) nl by auto
  qed
  show ?thesis by (simp only: int_strip_def front rear rev_rev_ident)
qed

lemma py_int_digits:
  assumes "ds \<noteq> []" "list_all is_digit ds" "t = [] \<or> t = [newline]"
  shows "py_int (ds @ t) = Some (int (digits_value ds))"
proof -
  have hd: "hd ds \<noteq> CHR ''-''" "hd ds \<noteq> CHR ''+''"
    using assms(1,2) is_digit_chars(4,5) by (auto simp: list_all_iff)
  show ?thesis
    using assms(1) hd
    by (simp add: py_int_def int_strip_digits [OF assms] Let_def int_literal_digits [OF assms(1,2)]
        filter_digits [OF assms(2)])
qed

lemma octet_digits: "octet ds \<Longrightarrow> ds \<noteq> [] \<and> list_all is_digit ds"
  by (auto simp: octet_def)

lemma is_valid_decomposed:
  assumes "octet a" "octet b" "octet c" "octet d" "t = [] \<or> t = [newline]"
  shows "is_valid_public_ipv4 (a @ CHR ''.'' # b @ CHR ''.'' # c @ CHR ''.'' # d @ t) =
           Inr (digits_value a \<le> 255 \<and> digits_value b \<le> 255 \<and> digits_value c \<le> 255 \<and>
                digits_value d \<le> 255 \<and>
                \<not> private_range (digits_value a) (digits_value b))"
proof -
  let ?s = "a @ CHR ''.'' # b @ CHR ''.'' # c @ CHR ''.'' # d @ t"
  have m: "re_match ipv4_pattern ?s"
    unfolding re_match_ipv4 using assms by blast
  have pa: "py_int a = Some (int (digits_value a))"
    using py_int_digits [of a "[]"] octet_digits [OF assms(1)] by simp
  have pb: "py_int b = Some (int (digits_value b))"
    using py_int_digits [of b "[]"] octet_digits [OF assms(2)] by simp
  have pc: "py_int c = Some (int (digits_value c))"
    using py_int_digits [of c "[]"] octet_digits [OF assms(3)] by simp
  have pd: "py_int (d @ t) = Some (int (digits_value d))"
    using py_int_digits [of d t] octet_digits [OF assms(4)] assms(5) by simp
  show ?thesis
    unfolding is_valid_public_ipv4_def split_on_ipv4 [OF assms]
    using m by (auto simp: pa pb pc pd private_range_def)
qed

lemma is_valid_never_raises: "\<exists>b. is_valid_public_ipv4 s = Inr b"
proof (cases "re_match ipv4_pattern s")
  case True
  then obtain a b c d t where "s = a @ CHR ''.'' # b @ CHR ''.'' # c @ CHR ''.'' # d @ t"
    "octet a" "octet b" "octet c" "octet d" "t = [] \<or> t = [newline]"
    unfolding re_match_ipv4 by blast
  then show ?thesis using is_valid_decomposed by blast
next
  case False
  then have "is_valid_public_ipv4 s = Inr False" by (simp add: is_valid_public_ipv4_def)
  then show ?thesis by blast
qed

lemma is_valid_public_ipv4_iff:
  "is_valid_public_ipv4 s = Inr True \<longleftrightarrow>
     (\<exists>a b c d t. s = a @ CHR ''.'' # b @ CHR ''.'' # c @ CHR ''.'' # d @ t \<and>
        (t = [] \<or> t = [newline]) \<and>
        octet a \<and> octet b \<and> octet c \<and> octet d \<and>
        digits_value a \<le> 255 \<and> digits_value b \<le> 255 \<and> digits_value c \<le> 255 \<and>
        digits_value d \<le> 255 \<and> \<not> private_range (digits_value a) (digits_value b))"
  (is "?lhs \<longleftrightarrow> ?rhs")
proof
  assume v: ?lhs
  then have "re_match ipv4_pattern s"
    by (auto simp: is_valid_public_ipv4_def split: if_splits)
  then obtain a b c d t where dec: "s = a @ CHR ''.'' # b @ CHR ''.'' # c @ CHR ''.'' # d @ t"
    "octet a" "octet b" "octet c" "octet d" "t = [] \<or> t = [newline]"
    unfolding re_match_ipv4 by blast
  from v dec(1) is_valid_decomposed [OF dec(2-6)]
  have "digits_value a \<le> 255 \<and> digits_value b \<le> 255 \<and> digits_value c \<le> 255 \<and>
        digits_value d \<le> 255 \<and> \<not> private_range (digits_value a) (digits_value b)"
    by simp
  with dec show ?rhs by blast
next
  assume ?rhs
  then obtain a b c d t where dec: "s = a @ CHR ''.'' # b @ CHR ''.'' # c @ CHR ''.'' # d @ t"
    "octet a" "octet b" "octet c" "octet d" "t = [] \<or> t = [newline]"
    and ok: "digits_value a \<le> 255 \<and> digits_value b \<le> 255 \<and> digits_value c \<le> 255 \<and>
        digits_value d \<le> 255 \<and> \<not> private_range (digits_value a) (digits_value b)"
    by blast
  show ?lhs
    using is_valid_decomposed [OF dec(2-6)] dec(1) ok by simp
qed

text \<open>
  Claim C4. The validator accepts the string \<^verbatim>\<open>"8.8.8.8\n"\<close>, which is not four
  dot-separated integers: \<^verbatim>\<open>$\<close> matches before a final line feed, \<^verbatim>\<open>split\<close> leaves
  the line feed in the last part, and \<^verbatim>\<open>int\<close> strips it.
\<close>

theorem is_valid_public_ipv4_trailing_newline:
  "is_valid_public_ipv4 (''8.8.8.8'' @ [newline]) = Inr True"
  by code_simp

section \<open>The resolver\<close>

lemma is_valid_rejected:
  "is_valid_public_ipv4 s \<noteq> Inr True \<Longrightarrow> is_valid_public_ipv4 s = Inr False"
  using is_valid_never_raises [of s] by auto

lemma query_loop_all_rejected:
  "list_all (\<lambda>u. rejected (svc u)) urls \<Longrightarrow>
   query_loop svc urls last_error =
     (Inl (NoPublicIP (case last_raised (map svc urls) of
                         Some e \<Rightarrow> Some e | None \<Rightarrow> last_error)),
      map IpQuery urls)"
proof (induction urls arbitrary: last_error)
  case Nil
  then show ?case by simp
next
  case (Cons u urls)
  then have rest: "list_all (\<lambda>u. rejected (svc u)) urls" and u: "rejected (svc u)" by simp_all
  show ?case
  proof (cases "svc u")
    case (IpRaises e)
    then show ?thesis
      using Cons.IH [OF rest, of "Some e"] by (simp split: option.splits)
  next
    case (IpBody body)
    with u have "is_valid_public_ipv4 (strip body) = Inr False"
      by (simp add: is_valid_rejected)
    then show ?thesis
      using IpBody Cons.IH [OF rest, of last_error] by (simp split: option.splits)
  qed
qed

lemma query_loop_first_valid:
  "list_all (\<lambda>u. rejected (svc u)) pre \<Longrightarrow> svc u = IpBody body \<Longrightarrow>
   is_valid_public_ipv4 (strip body) = Inr True \<Longrightarrow>
   query_loop svc (pre @ u # post) last_error = (Inr (strip body), map IpQuery (pre @ [u]))"
proof (induction pre arbitrary: last_error)
  case Nil
  then show ?case by simp
next
  case (Cons p pre)
  then have rest: "list_all (\<lambda>u. rejected (svc u)) pre" and p: "rejected (svc p)" by simp_all
  note IH = Cons.IH [OF rest Cons.prems(2,3)]
  show ?case
  proof (cases "svc p")
    case (IpRaises e)
    then show ?thesis using IH [of "Some e"] by simp
  next
    case (IpBody b)
    with p have "is_valid_public_ipv4 (strip b) = Inr False"
      by (simp add: is_valid_rejected)
    then show ?thesis using IpBody IH [of last_error] by simp
  qed
qed

text \<open>
  Claim C5. When the first \<open>k\<close> services fail (the request raises or the value is
  rejected) and the next one returns an accepted address, \<^verbatim>\<open>get_current_ip\<close> returns
  that address having asked exactly the first \<open>k + 1\<close> services, each once and in order.
  When all services fail it raises the error formatted from the exception of the last
  request that raised (from \<^verbatim>\<open>None\<close> when no request raised), having asked each
  service once. The services are pairwise different.
\<close>

theorem get_current_ip_fallback:
  "(k < length methods \<and> (\<forall>i<k. rejected (svc (methods ! i))) \<and>
    svc (methods ! k) = IpBody body \<and> is_valid_public_ipv4 (strip body) = Inr True
      \<longrightarrow> get_current_ip svc = (Inr (strip body), map IpQuery (take (Suc k) methods))) \<and>
   ((\<forall>i<length methods. rejected (svc (methods ! i)))
      \<longrightarrow> get_current_ip svc =
            (Inl (NoPublicIP (last_raised (map svc methods))), map IpQuery methods)) \<and>
   distinct methods"
proof (intro conjI impI)
  assume a: "k < length methods \<and> (\<forall>i<k. rejected (svc (methods ! i))) \<and>
    svc (methods ! k) = IpBody body \<and> is_valid_public_ipv4 (strip body) = Inr True"
  then have k: "k < length methods" by simp
  have split: "methods = take k methods @ methods ! k # drop (Suc k) methods"
    using k by (rule id_take_nth_drop)
  have pre: "list_all (\<lambda>u. rejected (svc u)) (take k methods)"
    using a by (auto simp: list_all_length)
  have "query_loop svc (take k methods @ methods ! k # drop (Suc k) methods) None =
          (Inr (strip body), map IpQuery (take k methods @ [methods ! k]))"
    using pre a by (intro query_loop_first_valid) auto
  then show "get_current_ip svc = (Inr (strip body), map IpQuery (take (Suc k) methods))"
    unfolding get_current_ip_def using split k by (simp add: take_Suc_conv_app_nth)
next
  assume "\<forall>i<length methods. rejected (svc (methods ! i))"
  then have "list_all (\<lambda>u. rejected (svc u)) methods"
    by (simp add: list_all_length)
  then show "get_current_ip svc =
            (Inl (NoPublicIP (last_raised (map svc methods))), map IpQuery methods)"
    unfolding get_current_ip_def
    by (simp add: query_loop_all_rejected split: option.splits)
next
  show "distinct methods" by (simp add: methods_def)
qed

lemma example_valid: "is_valid_public_ipv4 (strip example_body) = Inr True"
  by code_simp

lemma example_strip: "strip example_body = ''203.0.113.5''"
  by code_simp

lemma example_rejected:
  "is_valid_public_ipv4 (strip ''10.0.0.1'') = Inr False"
  "is_valid_public_ipv4 (strip ''<html>'') = Inr False"
  by code_simp+

theorem get_current_ip_fallback_witness:
  "get_current_ip example_svc =
     (Inr ''203.0.113.5'',
      [IpQuery ''https://api.ipify.org'', IpQuery ''https://ifconfig.me/ip'']) \<and>
   get_current_ip example_svc_down =
     (Inl (NoPublicIP (Some (NetworkError ''timeout''))),
      [IpQuery ''https://api.ipify.org'', IpQuery ''https://ifconfig.me/ip'',
       IpQuery ''https://checkip.amazonaws.com''])"
proof -
  have len: "length methods = Suc (Suc (Suc 0))" by (simp add: methods_def)
  have h1: "1 < length methods \<and> (\<forall>i<1. rejected (example_svc (methods ! i))) \<and>
      example_svc (methods ! 1) = IpBody example_body \<and>
      is_valid_public_ipv4 (strip example_body) = Inr True"
    by (simp add: methods_def example_svc_def example_valid)
  have h2: "\<forall>i<length methods. rejected (example_svc_down (methods ! i))"
    unfolding len All_less_Suc
    by (simp add: methods_def example_svc_down_def example_rejected)
  have "get_current_ip example_svc =
          (Inr (strip example_body), map IpQuery (take (Suc 1) methods))"
    using get_current_ip_fallback [of 1 example_svc example_body] h1
    by blast
  moreover have "get_current_ip example_svc_down =
          (Inl (NoPublicIP (last_raised (map example_svc_down methods))), map IpQuery methods)"
    using get_current_ip_fallback [of 0 example_svc_down] h2 by blast
  ultimately show ?thesis
    by (simp add: example_strip methods_def example_svc_down_def)
qed

section \<open>One attempt\<close>

lemma get_cloudflare_record_eq:
  "get_cloudflare_record cfg answer =
     ((case answer of Inl e \<Rightarrow> Inl e | Inr data \<Rightarrow> record_of_response data),
      [fetch_event cfg])"
  by (simp add: get_cloudflare_record_def cloudflare_request_def fetch_event_def
      split: sum.splits)

lemma update_cloudflare_dns_eq:
  "update_cloudflare_dns cfg answer rid ip False =
     ((case answer of
         Inl e \<Rightarrow> Inl e
       | Inr resp \<Rightarrow>
           (case get_method resp ''success'' of
              Inl e \<Rightarrow> Inl e | Inr success \<Rightarrow> Inr (truthy success))),
      [put_event cfg rid ip])"
  by (simp add: update_cloudflare_dns_def cloudflare_request_def put_event_def
      update_payload_def
      split: sum.splits)

lemma send_telegram_message_ok:
  "\<exists>evs. send_telegram_message cfg tg message = (Inr (), evs) \<and>
         list_all (\<lambda>ev. \<not> is_provider_call ev \<and> \<not> is_write ev) evs"
  by (auto simp: send_telegram_message_def send_loop_all list_all_iff split: option.splits)

lemma attempt_body_fetch_raises:
  "cf_fetch env a = Inl e \<Longrightarrow> attempt_body cfg env ip a = (Inl e, [fetch_event cfg])"
  by (simp add: attempt_body_def get_cloudflare_record_eq)



lemma attempt_body_update_ok:
  assumes "cf_fetch env a = Inr data"
    and "record_of_response data = Inr (rid, content, proxied)"
    and "JStr ip \<noteq> content \<or> truthy proxied"
    and "cf_update env a = Inr resp" and "get_method resp ''success'' = Inr s" and "truthy s"
  shows "attempt_body cfg env ip a =
           (Inr True, [fetch_event cfg, put_event cfg rid ip] @
              snd (send_telegram_message cfg (tg_service env) (update_message cfg ip)))"
proof -
  obtain evs where "send_telegram_message cfg (tg_service env) (update_message cfg ip) =
      (Inr (), evs)"
    using send_telegram_message_ok by blast
  then show ?thesis
    using assms
    by (auto simp: attempt_body_def get_cloudflare_record_eq update_cloudflare_dns_eq)
qed

text \<open>Every write of an attempt is the update of the record to the resolved address
  with the proxy off.\<close>

lemma attempt_body_writes:
  "list_all (\<lambda>ev. is_write ev \<longrightarrow> (\<exists>rid. ev = put_event cfg rid ip))
     (snd (attempt_body cfg env ip a))"
proof -
  obtain evs where tg: "send_telegram_message cfg (tg_service env) (update_message cfg ip) =
      (Inr (), evs)" "list_all (\<lambda>ev. \<not> is_provider_call ev \<and> \<not> is_write ev) evs"
    using send_telegram_message_ok by blast
  have f: "\<not> is_write (fetch_event cfg)" by (simp add: fetch_event_def)
  show ?thesis
    using tg f
    by (auto simp: attempt_body_def get_cloudflare_record_eq update_cloudflare_dns_eq
        list_all_iff split: sum.splits)
qed

section \<open>The retry loop\<close>

lemma time_sleep_ok: "sleepable d \<Longrightarrow> time_sleep d = (Inr (), [Sleep d])"
  by (simp add: time_sleep_def sleepable_def)

lemma attempt_body_one_write:
  "length (filter is_write (snd (attempt_body cfg env ip a))) \<le> 1"
proof -
  obtain evs where tg: "send_telegram_message cfg (tg_service env) (update_message cfg ip) =
      (Inr (), evs)" "list_all (\<lambda>ev. \<not> is_provider_call ev \<and> \<not> is_write ev) evs"
    using send_telegram_message_ok by blast
  then have w: "filter is_write evs = []"
    by (simp add: filter_empty_conv list_all_iff)
  show ?thesis
    using tg(1) w
    by (auto simp: attempt_body_def get_cloudflare_record_eq update_cloudflare_dns_eq
        fetch_event_def put_event_def split: sum.splits)
qed

lemma retry_loop_write_count:
  "length (filter is_write (snd (snd (retry_loop cfg env ip as last_ip)))) \<le> length as"
proof (induction as)
  case Nil
  then show ?case by simp
next
  case (Cons a as)
  have s: "filter is_write (snd (time_sleep (retry_delay cfg))) = []"
    by (simp add: time_sleep_def)
  show ?case
    using Cons attempt_body_one_write [of cfg env ip a] s
    by (auto simp: case_prod_beta split: sum.splits)
qed


lemma retry_loop_writes:
  "list_all (\<lambda>ev. is_write ev \<longrightarrow> (\<exists>rid. ev = put_event cfg rid ip))
     (snd (snd (retry_loop cfg env ip as last_ip)))"
proof (induction as)
  case Nil
  then show ?case by simp
next
  case (Cons a as)
  have s: "list_all (\<lambda>ev. is_write ev \<longrightarrow> (\<exists>rid. ev = put_event cfg rid ip))
             (snd (time_sleep (retry_delay cfg)))"
    by (simp add: time_sleep_def)
  show ?case
    using Cons attempt_body_writes [of cfg ip env a] s
    by (auto simp: split: prod.splits sum.splits)
qed




lemma retry_loop_fetch_raises:
  assumes "list_all (\<lambda>a. (\<exists>e. cf_fetch env a = Inl e) \<and> a < max_retries cfg) as"
    and "as = [] \<or> sleepable (retry_delay cfg)"
  shows "retry_loop cfg env ip (as @ rest) last_ip =
           (case retry_loop cfg env ip rest last_ip of
              (r, l, evs) \<Rightarrow>
                (r, l, concat (map (\<lambda>a. [fetch_event cfg, Sleep (retry_delay cfg)]) as) @ evs))"
  using assms
proof (induction as)
  case Nil
  then show ?case by (simp split: prod.splits)
next
  case (Cons a as)
  then obtain e where e: "cf_fetch env a = Inl e" and lt: "a < max_retries cfg"
    and rest: "list_all (\<lambda>a. (\<exists>e. cf_fetch env a = Inl e) \<and> a < max_retries cfg) as"
    by auto
  from Cons.prems(2) have sl: "sleepable (retry_delay cfg)" by simp
  then have later: "as = [] \<or> sleepable (retry_delay cfg)" by simp
  show ?case
    using Cons.IH [OF rest later] lt
    by (simp add: attempt_body_fetch_raises [OF e] time_sleep_ok [OF sl]
        split: prod.splits)
qed


text \<open>When every record request raises, the attempts are separated by the retry delay,
  with no sleep after the last one.\<close>

lemma reconcile_all_raise:
  assumes m: "1 \<le> max_retries cfg"
    and all: "\<forall>a. \<exists>e. cf_fetch env a = Inl e"
    and delay: "1 < max_retries cfg \<longrightarrow> sleepable (retry_delay cfg)"
  shows "reconcile cfg env ip last_ip =
           (Inr (), last_ip,
            concat (map (\<lambda>a. [fetch_event cfg, Sleep (retry_delay cfg)])
                      [1..max_retries cfg - 1]) @ [fetch_event cfg])"
proof -
  let ?m = "max_retries cfg"
  have split: "[1..?m] = [1..?m - 1] @ [?m]"
    using m by (simp add: upto_rec2)
  have pre: "list_all (\<lambda>a. (\<exists>e. cf_fetch env a = Inl e) \<and> a < ?m) [1..?m - 1]"
    using all by (auto simp: list_all_iff)
  have sl: "[1..?m - 1] = [] \<or> sleepable (retry_delay cfg)"
    using delay by (cases "1 < ?m") auto
  obtain e where e: "cf_fetch env ?m = Inl e" using all by blast
  show ?thesis
    unfolding reconcile_def split
    by (simp add: retry_loop_fetch_raises [OF pre sl] attempt_body_fetch_raises [OF e])
qed

section \<open>Ticks\<close>














lemma example_found_record:
  "record_of_response (JObj (example_found ip proxied)) = Inr (JStr ''abc'', JStr ip, JBool proxied)"
  by (simp add: record_of_response_def example_found_def example_record_def)





text \<open>
  Claim C3, as stated, fails: with the record holding the resolved address and the
  proxy on, a reconciliation whose update Cloudflare refuses repeats the update on the
  next attempt, so that with \<^verbatim>\<open>max_retries = 2\<close> two updates are sent.
\<close>

theorem reconcile_forced_unproxy_counterexample:
  "cf_fetch example_env_proxied_refused 1 = Inr (JObj (example_found ''203.0.113.5'' True)) \<and>
   record_of_response (JObj (example_found ''203.0.113.5'' True)) =
     Inr (JStr ''abc'', JStr ''203.0.113.5'', JBool True) \<and>
   filter is_write
     (snd (snd (reconcile example_cfg2 example_env_proxied_refused ''203.0.113.5'' None))) =
     [put_event example_cfg2 (JStr ''abc'') ''203.0.113.5'',
      put_event example_cfg2 (JStr ''abc'') ''203.0.113.5'']"
  by code_simp

text \<open>
  Claim C3, amended. When \<^verbatim>\<open>max_retries\<close> is at least 1, the first record request
  returns a record that holds the resolved address with the proxy on, and Cloudflare
  accepts the first update, the reconciliation sends the record request, then exactly
  one update, then the notifications, and sets \<^verbatim>\<open>last_ip\<close>. The update is the PUT of
  that record with type A, the configured name, the resolved address as content,
  automatic TTL and \<^verbatim>\<open>proxied\<close> false. Whatever Cloudflare answers, every update that a
  reconciliation sends has this body, and there are at most \<^verbatim>\<open>max_retries\<close> of them.
\<close>

theorem reconcile_forced_unproxy:
  "(1 \<le> max_retries cfg \<and> cf_fetch env 1 = Inr data \<and>
    record_of_response data = Inr (rid, JStr ip, proxied) \<and> truthy proxied \<and>
    cf_update env 1 = Inr resp \<and> get_method resp ''success'' = Inr s \<and> truthy s
      \<longrightarrow> reconcile cfg env ip last_ip =
            (Inr (), Some ip,
             [CfRequest (cloudflare_api_token cfg) ''GET''
                (RecordsByName (zone_id cfg) (record_name cfg)) None,
              CfRequest (cloudflare_api_token cfg) ''PUT'' (RecordById (zone_id cfg) rid)
                (Some (JObj [(''type'', JStr ''A''), (''name'', JStr (record_name cfg)),
                             (''content'', JStr ip), (''ttl'', JNum 1),
                             (''proxied'', JBool False)]))] @
             snd (send_telegram_message cfg (tg_service env) (update_message cfg ip))) \<and>
          filter is_write (snd (snd (reconcile cfg env ip last_ip))) =
            [CfRequest (cloudflare_api_token cfg) ''PUT'' (RecordById (zone_id cfg) rid)
               (Some (JObj [(''type'', JStr ''A''), (''name'', JStr (record_name cfg)),
                            (''content'', JStr ip), (''ttl'', JNum 1),
                            (''proxied'', JBool False)]))]) \<and>
   list_all
     (\<lambda>ev. is_write ev \<longrightarrow>
        (\<exists>rid'. ev =
           CfRequest (cloudflare_api_token cfg) ''PUT'' (RecordById (zone_id cfg) rid')
             (Some (JObj [(''type'', JStr ''A''), (''name'', JStr (record_name cfg)),
                          (''content'', JStr ip), (''ttl'', JNum 1),
                          (''proxied'', JBool False)]))))
     (snd (snd (reconcile cfg env ip last_ip))) \<and>
   length (filter is_write (snd (snd (reconcile cfg env ip last_ip)))) \<le> nat (max_retries cfg)"
proof (intro conjI impI)
  assume a: "1 \<le> max_retries cfg \<and> cf_fetch env 1 = Inr data \<and>
    record_of_response data = Inr (rid, JStr ip, proxied) \<and> truthy proxied \<and>
    cf_update env 1 = Inr resp \<and> get_method resp ''success'' = Inr s \<and> truthy s"
  obtain evs where tg: "send_telegram_message cfg (tg_service env) (update_message cfg ip) =
      (Inr (), evs)" "list_all (\<lambda>ev. \<not> is_provider_call ev \<and> \<not> is_write ev) evs"
    using send_telegram_message_ok by blast
  have ab: "attempt_body cfg env ip 1 =
      (Inr True, [fetch_event cfg, put_event cfg rid ip] @
              snd (send_telegram_message cfg (tg_service env) (update_message cfg ip)))"
    using a by (intro attempt_body_update_ok) auto
  have up: "[1..max_retries cfg] = 1 # [2..max_retries cfg]"
    using a by (simp add: upto_rec1)
  have r: "reconcile cfg env ip last_ip =
      (Inr (), Some ip, [fetch_event cfg, put_event cfg rid ip] @ evs)"
    unfolding reconcile_def up using ab tg(1) by simp
  have w: "filter is_write evs = []"
    using tg(2) by (simp add: filter_empty_conv list_all_iff)
  show "reconcile cfg env ip last_ip =
            (Inr (), Some ip,
             [CfRequest (cloudflare_api_token cfg) ''GET''
                (RecordsByName (zone_id cfg) (record_name cfg)) None,
              CfRequest (cloudflare_api_token cfg) ''PUT'' (RecordById (zone_id cfg) rid)
                (Some (JObj [(''type'', JStr ''A''), (''name'', JStr (record_name cfg)),
                             (''content'', JStr ip), (''ttl'', JNum 1),
                             (''proxied'', JBool False)]))] @
             snd (send_telegram_message cfg (tg_service env) (update_message cfg ip)))"
    unfolding r using tg(1) by (simp add: fetch_event_def put_event_def)
  show "filter is_write (snd (snd (reconcile cfg env ip last_ip))) =
            [CfRequest (cloudflare_api_token cfg) ''PUT'' (RecordById (zone_id cfg) rid)
               (Some (JObj [(''type'', JStr ''A''), (''name'', JStr (record_name cfg)),
                            (''content'', JStr ip), (''ttl'', JNum 1),
                            (''proxied'', JBool False)]))]"
    unfolding r using w by (simp add: fetch_event_def put_event_def)
next
  show "list_all
     (\<lambda>ev. is_write ev \<longrightarrow>
        (\<exists>rid'. ev =
           CfRequest (cloudflare_api_token cfg) ''PUT'' (RecordById (zone_id cfg) rid')
             (Some (JObj [(''type'', JStr ''A''), (''name'', JStr (record_name cfg)),
                          (''content'', JStr ip), (''ttl'', JNum 1),
                          (''proxied'', JBool False)]))))
     (snd (snd (reconcile cfg env ip last_ip)))"
    using retry_loop_writes [of cfg ip env "[1..max_retries cfg]" last_ip]
    unfolding reconcile_def put_event_def .
next
  show "length (filter is_write (snd (snd (reconcile cfg env ip last_ip)))) \<le>
          nat (max_retries cfg)"
    using retry_loop_write_count [of cfg env ip "[1..max_retries cfg]" last_ip]
    by (simp add: reconcile_def)
qed

theorem reconcile_forced_unproxy_witness:
  "reconcile example_cfg_tg example_env_proxied ''203.0.113.5'' None =
     (Inr (), Some ''203.0.113.5'',
      [CfRequest ''secret'' ''GET'' (RecordsByName ''zone1'' ''home.example.org'') None,
       CfRequest ''secret'' ''PUT'' (RecordById ''zone1'' (JStr ''abc''))
         (Some (JObj [(''type'', JStr ''A''), (''name'', JStr ''home.example.org''),
                      (''content'', JStr ''203.0.113.5''), (''ttl'', JNum 1),
                      (''proxied'', JBool False)])),
       TgSend ''bot'' (tg_payload (update_message example_cfg_tg ''203.0.113.5'') 11),
       TgSend ''bot'' (tg_payload (update_message example_cfg_tg ''203.0.113.5'') 22)]) \<and>
   filter is_write (snd (snd (reconcile example_cfg_tg example_env_proxied ''203.0.113.5'' None))) =
     [CfRequest ''secret'' ''PUT'' (RecordById ''zone1'' (JStr ''abc''))
        (Some (JObj [(''type'', JStr ''A''), (''name'', JStr ''home.example.org''),
                     (''content'', JStr ''203.0.113.5''), (''ttl'', JNum 1),
                     (''proxied'', JBool False)]))]"
proof -
  let ?ip = "''203.0.113.5''"
  have h: "1 \<le> max_retries example_cfg_tg \<and>
      cf_fetch example_env_proxied 1 = Inr (JObj (example_found ?ip True)) \<and>
      record_of_response (JObj (example_found ?ip True)) = Inr (JStr ''abc'', JStr ?ip, JBool True) \<and>
      truthy (JBool True) \<and>
      cf_update example_env_proxied 1 = Inr (JObj [(''success'', JBool True)]) \<and>
      get_method (JObj [(''success'', JBool True)]) ''success'' = Inr (JBool True) \<and>
      truthy (JBool True)"
    by (simp add: example_cfg_tg_def example_cfg_def example_env_proxied_def example_env_def
        example_found_record)
  have tg: "snd (send_telegram_message example_cfg_tg (tg_service example_env_proxied)
                   (update_message example_cfg_tg ?ip)) =
      [TgSend ''bot'' (tg_payload (update_message example_cfg_tg ?ip) 11),
       TgSend ''bot'' (tg_payload (update_message example_cfg_tg ?ip) 22)]"
    by (simp add: send_telegram_message_def send_loop_all example_cfg_tg_def example_cfg_def)
  have fields: "cloudflare_api_token example_cfg_tg = ''secret''"
    "zone_id example_cfg_tg = ''zone1''" "record_name example_cfg_tg = ''home.example.org''"
    by (simp_all add: example_cfg_tg_def example_cfg_def)
  show ?thesis
    using reconcile_forced_unproxy [where cfg = example_cfg_tg
        and env = example_env_proxied and data = "JObj (example_found ?ip True)"
        and rid = "JStr ''abc''" and ip = ?ip and proxied = "JBool True"
        and resp = "JObj [(''success'', JBool True)]" and s = "JBool True"
        and last_ip = None] h
    unfolding tg fields by simp
qed





text \<open>
  Claim C2. With \<^verbatim>\<open>max_retries = 2\<close> and \<^verbatim>\<open>retry_delay = 5\<close>, when Cloudflare holds
  another address and answers both updates with \<^verbatim>\<open>{"success": false}\<close>, the two
  attempts follow each other with no sleep between them: only the \<^verbatim>\<open>except\<close> clause
  sleeps, and a false \<^verbatim>\<open>success\<close> raises nothing.
\<close>

theorem reconcile_update_refused:
  "reconcile example_cfg2 example_env_refused ''203.0.113.5'' None =
     (Inr (), None,
      [fetch_event example_cfg2, put_event example_cfg2 (JStr ''abc'') ''203.0.113.5'',
       fetch_event example_cfg2, put_event example_cfg2 (JStr ''abc'') ''203.0.113.5''])"
  by code_simp

end
